theory Spec2Isabelle
  imports Main
begin

section \<open>The service catalogue\<close>

text \<open>
  \<^verbatim>\<open>SERVICE_CATEGORIES\<close> of \<^verbatim>\<open>src/App.tsx\<close>: an ordered list of categories, each
  owning an ordered list of services. Strings are lists of characters.
\<close>

record service =
  s_id :: string
  s_title :: string

record service_category =
  c_id :: string
  c_title :: string
  c_description :: string
  c_services :: "service list"

definition SERVICE_CATEGORIES :: "service_category list" where
  "SERVICE_CATEGORIES = [
  \<lparr>c_id = ''ideation'',
   c_title = ''Product Ideation & Research'',
   c_description = ''Market research, feasibility, validation and product concepting.'',
   c_services =
     [\<lparr>s_id = ''market-research'', s_title = ''Market Research & Consumer Insights''\<rparr>,
       \<lparr>s_id = ''competitive-benchmark'', s_title = ''Competitive Benchmarking''\<rparr>,
       \<lparr>s_id = ''feasibility'', s_title = ''Feasibility Studies''\<rparr>,
       \<lparr>s_id = ''concept-dev'', s_title = ''Product Concept Development''\<rparr>,
       \<lparr>s_id = ''validation'', s_title = ''Validation & Pilot Testing''\<rparr>]\<rparr>,
  \<lparr>c_id = ''design'',
   c_title = ''Design & Creative Services'',
   c_description = ''Product design, visuals, photography, prototypes.'',
   c_services =
     [\<lparr>s_id = ''industrial-design'', s_title = ''Industrial / Product Design''\<rparr>,
       \<lparr>s_id = ''graphic-design'', s_title = ''Graphic & Logo Design''\<rparr>,
       \<lparr>s_id = ''ux-ui'', s_title = ''UX / UI Design''\<rparr>,
       \<lparr>s_id = ''photo-video'', s_title = ''Product Photography & Videography''\<rparr>,
       \<lparr>s_id = ''prototyping'', s_title = ''Prototyping & 3D Rendering''\<rparr>]\<rparr>,
  \<lparr>c_id = ''branding'',
   c_title = ''Branding & Identity'',
   c_description = ''Strategy, messaging, brand guides and localization.'',
   c_services =
     [\<lparr>s_id = ''brand-strategy'', s_title = ''Brand Strategy & Positioning''\<rparr>,
       \<lparr>s_id = ''logo-identity'', s_title = ''Logo & Identity''\<rparr>,
       \<lparr>s_id = ''messaging'', s_title = ''Messaging & Copywriting''\<rparr>,
       \<lparr>s_id = ''guidelines'', s_title = ''Brand Guidelines''\<rparr>,
       \<lparr>s_id = ''localization'', s_title = ''Multilingual Branding''\<rparr>]\<rparr>,
  \<lparr>c_id = ''packaging'',
   c_title = ''Packaging & Labeling'',
   c_description = ''Design, sourcing and compliance-ready labels.'',
   c_services =
     [\<lparr>s_id = ''pack-design'', s_title = ''Packaging Design (structural + aesthetic)''\<rparr>,
       \<lparr>s_id = ''eco-pack'', s_title = ''Sustainable / Eco Packaging''\<rparr>,
       \<lparr>s_id = ''labeling'', s_title = ''Compliance Labeling''\<rparr>,
       \<lparr>s_id = ''smart-pack'', s_title = ''QR / Smart Packaging''\<rparr>,
       \<lparr>s_id = ''print-prod'', s_title = ''Print & Production Management''\<rparr>]\<rparr>,
  \<lparr>c_id = ''digital'',
   c_title = ''Digital Presence & Web'',
   c_description = ''Websites, ecommerce, SEO and catalogs.'',
   c_services =
     [\<lparr>s_id = ''website'', s_title = ''Corporate Website Development''\<rparr>,
       \<lparr>s_id = ''ecommerce'', s_title = ''E-commerce Store Setup''\<rparr>,
       \<lparr>s_id = ''seo'', s_title = ''SEO & Listing Optimization''\<rparr>,
       \<lparr>s_id = ''landing'', s_title = ''Product Landing Pages''\<rparr>,
       \<lparr>s_id = ''catalog'', s_title = ''Digital Catalogs & Brochures''\<rparr>]\<rparr>,
  \<lparr>c_id = ''marketing'',
   c_title = ''Marketing & Go-to-Market'',
   c_description = ''Social, PR, ads, trade shows and partnerships.'',
   c_services =
     [\<lparr>s_id = ''social'', s_title = ''Social Media Strategy & Content''\<rparr>,
       \<lparr>s_id = ''influencer'', s_title = ''Influencer & Affiliate Partnerships''\<rparr>,
       \<lparr>s_id = ''pr'', s_title = ''PR & Media Outreach''\<rparr>,
       \<lparr>s_id = ''ads'', s_title = ''Paid Advertising Campaigns''\<rparr>,
       \<lparr>s_id = ''tradeshows'', s_title = ''Trade Show Representation''\<rparr>]\<rparr>,
  \<lparr>c_id = ''compliance'',
   c_title = ''Compliance & Certification'',
   c_description = ''Certifications, IP and export doc support.'',
   c_services =
     [\<lparr>s_id = ''certs'', s_title = ''Product Certification Support''\<rparr>,
       \<lparr>s_id = ''ip'', s_title = ''Intellectual Property Assistance''\<rparr>,
       \<lparr>s_id = ''export-docs'', s_title = ''Export Documentation Support''\<rparr>,
       \<lparr>s_id = ''safety'', s_title = ''Safety & Regulatory Compliance''\<rparr>]\<rparr>,
  \<lparr>c_id = ''manufacturing'',
   c_title = ''Manufacturing & Supply Chain'',
   c_description = ''Suppliers, contract manufacturing and QA.'',
   c_services =
     [\<lparr>s_id = ''sourcing'', s_title = ''Supplier & Vendor Sourcing''\<rparr>,
       \<lparr>s_id = ''small-batch'', s_title = ''Small-Batch Production Setup''\<rparr>,
       \<lparr>s_id = ''contract-man'', s_title = ''Contract Manufacturing''\<rparr>,
       \<lparr>s_id = ''qa'', s_title = ''Quality Assurance & Testing''\<rparr>,
       \<lparr>s_id = ''inventory'', s_title = ''Inventory & Warehouse Consulting''\<rparr>]\<rparr>,
  \<lparr>c_id = ''finance'',
   c_title = ''Financing & Insurance'',
   c_description = ''Trade finance, grants and insurance advisory.'',
   c_services =
     [\<lparr>s_id = ''trade-finance'', s_title = ''Trade Finance Access''\<rparr>,
       \<lparr>s_id = ''grants'', s_title = ''Grants & Funding Advisory''\<rparr>,
       \<lparr>s_id = ''insurance'', s_title = ''Export & Product Insurance''\<rparr>,
       \<lparr>s_id = ''liability'', s_title = ''Product Liability Insurance''\<rparr>]\<rparr>,
  \<lparr>c_id = ''growth'',
   c_title = ''Post-Launch Growth'',
   c_description = ''Distribution, iteration, scaling and licensing.'',
   c_services =
     [\<lparr>s_id = ''distributor'', s_title = ''Distributor & Retailer Matchmaking''\<rparr>,
       \<lparr>s_id = ''feedback'', s_title = ''Customer Feedback Loops''\<rparr>,
       \<lparr>s_id = ''scaling'', s_title = ''Iteration & SKU Scaling''\<rparr>,
       \<lparr>s_id = ''licensing'', s_title = ''Licensing & Franchising''\<rparr>]\<rparr>]"

text \<open>All services of a list of categories, in catalogue order.\<close>

definition all_services :: "service_category list \<Rightarrow> service list" where
  "all_services cats = concat (map c_services cats)"

section \<open>Selection state\<close>

text \<open>
  \<^verbatim>\<open>toggleService\<close> is the updater handed to \<^verbatim>\<open>setSelected\<close>:
  \<^verbatim>\<open>prev.includes(id) ? prev.filter(s => s !== id) : [...prev, id]\<close>.
\<close>

definition toggleService :: "string \<Rightarrow> string list \<Rightarrow> string list" where
  "toggleService serviceId prev =
     (if serviceId \<in> set prev then filter (\<lambda>s. s \<noteq> serviceId) prev
      else prev @ [serviceId])"

definition isSelected :: "string list \<Rightarrow> string \<Rightarrow> bool" where
  "isSelected selected serviceId = (serviceId \<in> set selected)"

text \<open>The selection after a sequence of toggle events, oldest first.\<close>

definition toggles :: "string list \<Rightarrow> string list \<Rightarrow> string list" where
  "toggles ts sel = foldl (\<lambda>prev t. toggleService t prev) sel ts"

text \<open>
  \<^verbatim>\<open>serviceTitleById\<close>: two nested \<^verbatim>\<open>for\<close> loops with an early return on the
  first service whose id matches; the raw id when both loops run out.
\<close>

fun scan_services :: "service list \<Rightarrow> string \<Rightarrow> string option" where
  "scan_services [] i = None"
| "scan_services (s # ss) i = (if s_id s = i then Some (s_title s) else scan_services ss i)"

fun scan_categories :: "service_category list \<Rightarrow> string \<Rightarrow> string" where
  "scan_categories [] i = i"
| "scan_categories (cat # cats) i =
     (case scan_services (c_services cat) i of
        Some t \<Rightarrow> t
      | None \<Rightarrow> scan_categories cats i)"

definition serviceTitleById :: "string \<Rightarrow> string" where
  "serviceTitleById i = scan_categories SERVICE_CATEGORIES i"

section \<open>Strings, thrown values and the outside world\<close>

text \<open>
  JavaScript white space (the class \<^verbatim>\<open>\s\<close>, also what \<^verbatim>\<open>trim\<close> strips): tab, line
  feed, vertical tab, form feed, carriage return, space and no-break space. HOL
  characters are eight bits wide, so the white-space code units above 255 have no
  counterpart here.
\<close>

definition is_ws :: "char \<Rightarrow> bool" where
  "is_ws c = (c \<in> set [CHR 0x09, CHR 0x0A, CHR 0x0B, CHR 0x0C, CHR 0x0D, CHR 0x20, CHR 0xA0])"

definition trim :: "string \<Rightarrow> string" where
  "trim s = rev (dropWhile is_ws (rev (dropWhile is_ws s)))"

text \<open>\<^verbatim>\<open>s.replace(/\s+/g, '-')\<close>: every maximal run of white space becomes one dash.\<close>

fun dash_runs :: "string \<Rightarrow> bool \<Rightarrow> string" where
  "dash_runs [] in_run = []"
| "dash_runs (c # cs) in_run =
     (if is_ws c then (if in_run then dash_runs cs True else CHR ''-'' # dash_runs cs True)
      else c # dash_runs cs False)"

definition replace_ws_dash :: "string \<Rightarrow> string" where
  "replace_ws_dash s = dash_runs s False"

text \<open>\<^verbatim>\<open>xs.join(sep)\<close>.\<close>

fun join :: "string \<Rightarrow> string list \<Rightarrow> string" where
  "join sep [] = []"
| "join sep [x] = x"
| "join sep (x # y # ys) = x @ sep @ join sep (y # ys)"

text \<open>Decimal rendering of a number inside a template literal.\<close>

definition digit_char :: "nat \<Rightarrow> char" where
  "digit_char d = ''0123456789'' ! (d mod 10)"

fun show_nat :: "nat \<Rightarrow> string" where
  "show_nat n = (if n < 10 then [digit_char n] else show_nat (n div 10) @ [digit_char (n mod 10)])"

declare show_nat.simps [simp del]

text \<open>\<^verbatim>\<open>a || b\<close> on strings: the empty string is falsy.\<close>

definition or_else :: "string \<Rightarrow> string \<Rightarrow> string" where
  "or_else a b = (if a = [] then b else a)"

definition or_null :: "string \<Rightarrow> string option" where
  "or_null a = (if a = [] then None else Some a)"

text \<open>
  A thrown value is either an \<^verbatim>\<open>Error\<close> carrying a message or something else
  (kept by its printed form). A call either returns or throws; for an awaited promise,
  throwing is rejection.
\<close>

datatype js_thrown = JsError string | JsOther string

datatype 'a outcome = Returns 'a | Throws js_thrown

fun thrown_text :: "js_thrown \<Rightarrow> string" where
  "thrown_text (JsError m) = m"
| "thrown_text (JsOther v) = v"

text \<open>
  The database client answers an insert with \<^verbatim>\<open>{ data, error }\<close>. With
  \<^verbatim>\<open>.select().single()\<close> a missing row is itself reported as an error, so exactly one
  of the two is set; an insert without \<^verbatim>\<open>select\<close> carries no data on success.
\<close>

datatype 'a db_reply = DbData 'a | DbError string

record http_response =
  h_status :: nat
  h_body :: string

definition response_ok :: "http_response \<Rightarrow> bool" where
  "response_ok r = (200 \<le> h_status r \<and> h_status r \<le> 299)"

section \<open>Regular expressions\<close>

text \<open>
  The e-mail check is the regular expression
  \<^verbatim>\<open>/^[^\s@]+@[^\s@]+\.[^\s@]+$/\<close>. Expressions are matched against the whole
  string by taking derivatives, character by character.
\<close>

datatype rx =
    Never
  | Eps
  | Sym "char \<Rightarrow> bool"
  | Alt rx rx
  | Seq rx rx
  | Rep rx

fun nullable :: "rx \<Rightarrow> bool" where
  "nullable Never = False"
| "nullable Eps = True"
| "nullable (Sym p) = False"
| "nullable (Alt r s) = (nullable r \<or> nullable s)"
| "nullable (Seq r s) = (nullable r \<and> nullable s)"
| "nullable (Rep r) = True"

fun deriv :: "char \<Rightarrow> rx \<Rightarrow> rx" where
  "deriv c Never = Never"
| "deriv c Eps = Never"
| "deriv c (Sym p) = (if p c then Eps else Never)"
| "deriv c (Alt r s) = Alt (deriv c r) (deriv c s)"
| "deriv c (Seq r s) =
     (if nullable r then Alt (Seq (deriv c r) s) (deriv c s) else Seq (deriv c r) s)"
| "deriv c (Rep r) = Seq (deriv c r) (Rep r)"

fun rx_test :: "rx \<Rightarrow> string \<Rightarrow> bool" where
  "rx_test r [] = nullable r"
| "rx_test r (c # cs) = rx_test (deriv c r) cs"

definition one_or_more :: "rx \<Rightarrow> rx" where
  "one_or_more r = Seq r (Rep r)"

definition not_ws_or_at :: "char \<Rightarrow> bool" where
  "not_ws_or_at c = (\<not> is_ws c \<and> c \<noteq> CHR ''@'')"

definition EMAIL_RX :: rx where
  "EMAIL_RX =
     Seq (one_or_more (Sym not_ws_or_at))
       (Seq (Sym (\<lambda>c. c = CHR ''@''))
         (Seq (one_or_more (Sym not_ws_or_at))
           (Seq (Sym (\<lambda>c. c = CHR ''.''))
             (one_or_more (Sym not_ws_or_at)))))"

text \<open>The language of an expression, against which the matcher is checked below.\<close>

inductive_set star :: "string set \<Rightarrow> string set" for A :: "string set" where
  star_nil: "[] \<in> star A"
| star_app: "u \<in> A \<Longrightarrow> v \<in> star A \<Longrightarrow> u @ v \<in> star A"

fun lang :: "rx \<Rightarrow> string set" where
  "lang Never = {}"
| "lang Eps = {[]}"
| "lang (Sym p) = {[c] | c. p c}"
| "lang (Alt r s) = lang r \<union> lang s"
| "lang (Seq r s) = {u @ v | u v. u \<in> lang r \<and> v \<in> lang s}"
| "lang (Rep r) = star (lang r)"

section \<open>The notification pipeline\<close>

text \<open>
  The e-mail service module: payload, result and the two senders. Optional payload
  fields arrive as (possibly empty) strings from the one caller; the result's optional
  \<^verbatim>\<open>emailId\<close> is never set on the paths below. The configured addresses are taken
  to be set.
\<close>

record QuoteRequestData =
  q_name :: string
  q_company :: string
  q_email :: string
  q_phone :: string
  q_budget :: string
  q_timeline :: string
  q_message :: string
  q_selectedServices :: "string list"
  q_timestamp :: string

record EmailResult =
  er_success :: bool
  er_message :: string

record attachment =
  att_filename :: string
  att_content :: string
  att_content_type :: string

record email_payload =
  ep_from :: string
  ep_to :: "string list"
  ep_subject :: string
  ep_html :: string
  ep_attachments :: "attachment list"

text \<open>
  What the mail code needs from outside: the configured addresses, the PDF library
  (which may throw), the two HTML templates (pure string builders, taken as given),
  and the network's answer to the admin POST and to the client POST. Each POST is
  issued at most once per submission, so one answer function per POST loses nothing.
\<close>

record mail_env =
  ADMIN_EMAIL :: string
  FROM_EMAIL :: string
  generateQuoteRequestPDF :: "QuoteRequestData \<Rightarrow> string outcome"
  generateQuoteRequestEmailHTML :: "QuoteRequestData \<Rightarrow> string"
  generateClientConfirmationHTML :: "QuoteRequestData \<Rightarrow> string"
  fetch_admin :: "email_payload \<Rightarrow> http_response outcome"
  fetch_client :: "email_payload \<Rightarrow> http_response outcome"

text \<open>Observable effects of the browser code, in the order they happen.\<close>

record quote_insert =
  qi_name :: string
  qi_email :: string
  qi_phone :: "string option"
  qi_company :: "string option"
  qi_message :: "string option"
  qi_status :: string
  qi_request_number :: string
  qi_created_at :: string

record quote_row =
  row_id :: string
  row_request_number :: string

record service_insert =
  si_quote_request_id :: string
  si_service_name :: string
  si_custom_description :: "string option"
  si_estimated_price :: "nat option"
  si_final_price :: "nat option"

datatype event =
    InsertQuoteRequest quote_insert
  | InsertQuoteServices "service_insert list"
  | PostEmail email_payload
  | ConsoleError string string
  | ConsoleWarn string string

fun is_network_call :: "event \<Rightarrow> bool" where
  "is_network_call (InsertQuoteRequest q) = True"
| "is_network_call (InsertQuoteServices rows) = True"
| "is_network_call (PostEmail p) = True"
| "is_network_call (ConsoleError l d) = False"
| "is_network_call (ConsoleWarn l d) = False"

fun is_email_post :: "event \<Rightarrow> bool" where
  "is_email_post (PostEmail p) = True"
| "is_email_post e = False"

fun is_services_insert :: "event \<Rightarrow> bool" where
  "is_services_insert (InsertQuoteServices rows) = True"
| "is_services_insert e = False"

fun is_quote_insert :: "event \<Rightarrow> bool" where
  "is_quote_insert (InsertQuoteRequest q) = True"
| "is_quote_insert e = False"

text \<open>
  The tail shared by both senders: a rejected \<^verbatim>\<open>fetch\<close> and a non-2xx answer both
  end in the \<^verbatim>\<open>catch\<close>, which logs and returns \<^verbatim>\<open>false\<close>.
\<close>

definition post_result :: "string \<Rightarrow> http_response outcome \<Rightarrow> bool \<times> event list" where
  "post_result label reply =
     (case reply of
        Throws t \<Rightarrow> (False, [ConsoleError label (thrown_text t)])
      | Returns r \<Rightarrow>
          if \<not> response_ok r
          then (False, [ConsoleError label
                  (''Resend API error: '' @ show_nat (h_status r) @ '' - '' @ h_body r)])
          else (True, []))"

definition admin_payload :: "mail_env \<Rightarrow> QuoteRequestData \<Rightarrow> string \<Rightarrow> email_payload" where
  "admin_payload env quoteData pdfContent =
     \<lparr>ep_from = FROM_EMAIL env,
      ep_to = [ADMIN_EMAIL env],
      ep_subject = ''New Quote Request - '' @ or_else (q_company quoteData) (q_name quoteData),
      ep_html = generateQuoteRequestEmailHTML env quoteData,
      ep_attachments =
        [\<lparr>att_filename = ''quote-request-''
             @ replace_ws_dash (or_else (q_company quoteData) (q_name quoteData)) @ ''.pdf'',
          att_content = pdfContent,
          att_content_type = ''application/pdf''\<rparr>]\<rparr>"

definition sendQuoteRequestEmail :: "mail_env \<Rightarrow> QuoteRequestData \<Rightarrow> bool \<times> event list" where
  "sendQuoteRequestEmail env quoteData =
     (case generateQuoteRequestPDF env quoteData of
        Throws t \<Rightarrow> (False, [ConsoleError ''Failed to send quote request email:'' (thrown_text t)])
      | Returns pdfContent \<Rightarrow>
          (let emailPayload = admin_payload env quoteData pdfContent;
               (sent, logs) = post_result ''Failed to send quote request email:''
                               (fetch_admin env emailPayload)
           in (sent, PostEmail emailPayload # logs)))"

definition client_payload :: "mail_env \<Rightarrow> QuoteRequestData \<Rightarrow> email_payload" where
  "client_payload env quoteData =
     \<lparr>ep_from = FROM_EMAIL env,
      ep_to = [q_email quoteData],
      ep_subject = ''Quote Request Received - OneShopCentrale'',
      ep_html = generateClientConfirmationHTML env quoteData,
      ep_attachments = []\<rparr>"

definition sendClientConfirmationEmail :: "mail_env \<Rightarrow> QuoteRequestData \<Rightarrow> bool \<times> event list" where
  "sendClientConfirmationEmail env quoteData =
     (let emailPayload = client_payload env quoteData;
          (sent, logs) = post_result ''Failed to send client confirmation email:''
                          (fetch_client env emailPayload)
      in (sent, PostEmail emailPayload # logs))"

text \<open>\<^verbatim>\<open>validateQuoteRequestData\<close>: the list of complaints, in the order they are pushed.\<close>

definition validation_errors :: "QuoteRequestData \<Rightarrow> string list" where
  "validation_errors d =
     (if q_name d = [] \<or> length (trim (q_name d)) = 0 then [''Name is required''] else [])
     @ (if q_email d = [] \<or> length (trim (q_email d)) = 0 then [''Email is required'']
        else if \<not> rx_test EMAIL_RX (q_email d) then [''Valid email address is required'']
        else [])
     @ (if length (q_selectedServices d) = 0 then [''At least one service must be selected'']
        else [])"

definition isValid :: "QuoteRequestData \<Rightarrow> bool" where
  "isValid d = (length (validation_errors d) = 0)"

text \<open>
  \<^verbatim>\<open>sendQuoteRequestEmails\<close>: validate, then the admin message, then the client
  message, then the three-way summary. Both senders swallow their own failures, so the
  outer \<^verbatim>\<open>catch\<close> is never entered.
\<close>

definition sendQuoteRequestEmails :: "mail_env \<Rightarrow> QuoteRequestData \<Rightarrow> EmailResult \<times> event list" where
  "sendQuoteRequestEmails env d =
     (if \<not> isValid d
      then (\<lparr>er_success = False,
             er_message = ''Validation failed: '' @ join '', '' (validation_errors d)\<rparr>, [])
      else
        (let (adminEmailSent, ev1) = sendQuoteRequestEmail env d;
             (clientEmailSent, ev2) = sendClientConfirmationEmail env d
         in (if adminEmailSent \<and> clientEmailSent
             then \<lparr>er_success = True, er_message = ''Quote request emails sent successfully''\<rparr>
             else if adminEmailSent
             then \<lparr>er_success = True,
                   er_message = ''Admin notification sent, but client confirmation failed''\<rparr>
             else \<lparr>er_success = False, er_message = ''Failed to send quote request emails''\<rparr>,
             ev1 @ ev2)))"

section \<open>The submission orchestrator in the browser\<close>

record contact_form =
  f_name :: string
  f_company :: string
  f_email :: string
  f_phone :: string
  f_budget :: string
  f_timeline :: string
  f_message :: string

definition EMPTY_FORM :: contact_form where
  "EMPTY_FORM =
     \<lparr>f_name = [], f_company = [], f_email = [], f_phone = [], f_budget = [],
      f_timeline = [], f_message = []\<rparr>"

text \<open>The component's state: one field per \<^verbatim>\<open>useState\<close>.\<close>

record ui_state =
  expandedCategory :: "string option"
  selected :: "string list"
  form :: contact_form
  submitting :: bool
  success :: "string option"
  error :: "string option"

text \<open>
  The browser's surroundings: the two database inserts (each awaited once; the promise
  resolves to \<^verbatim>\<open>{ data, error }\<close> or rejects), the clock and the mail module's
  surroundings. \<^verbatim>\<open>clock_iso k\<close> is what the \<open>k\<close>-th \<^verbatim>\<open>new Date().toISOString()\<close>
  of a submission returns, counting from 0; reading 0 goes into the \<^verbatim>\<open>payload\<close>
  constant, which \<^verbatim>\<open>handleSubmit\<close> builds and never uses.
\<close>

record browser_env =
  db_insert_quote :: "quote_insert \<Rightarrow> quote_row db_reply outcome"
  db_insert_services :: "service_insert list \<Rightarrow> unit db_reply outcome"
  date_now :: nat
  clock_iso :: "nat \<Rightarrow> string"
  mail :: mail_env

text \<open>
  The catalogue search inside \<^verbatim>\<open>handleSubmit\<close>: per category
  \<^verbatim>\<open>category.services.find(s => s.id === serviceId)\<close>, leaving the loop at the first hit.
\<close>

fun find_service :: "service_category list \<Rightarrow> string \<Rightarrow> service option" where
  "find_service [] serviceId = None"
| "find_service (category # rest) serviceId =
     (case List.find (\<lambda>s. s_id s = serviceId) (c_services category) of
        Some svc \<Rightarrow> Some svc
      | None \<Rightarrow> find_service rest serviceId)"

text \<open>\<^verbatim>\<open>serviceDetails?.title || serviceId\<close>, the name stored with a service row.\<close>

definition service_name_of :: "string \<Rightarrow> string" where
  "service_name_of serviceId =
     (case find_service SERVICE_CATEGORIES serviceId of
        None \<Rightarrow> serviceId
      | Some serviceDetails \<Rightarrow> or_else (s_title serviceDetails) serviceId)"

text \<open>The title placed in the e-mail payload: the found title, else the id.\<close>

definition email_title_of :: "string \<Rightarrow> string" where
  "email_title_of serviceId =
     (case find_service SERVICE_CATEGORIES serviceId of
        Some svc \<Rightarrow> s_title svc
      | None \<Rightarrow> serviceId)"

definition quote_insert_of :: "browser_env \<Rightarrow> contact_form \<Rightarrow> quote_insert" where
  "quote_insert_of env frm =
     \<lparr>qi_name = f_name frm,
      qi_email = f_email frm,
      qi_phone = or_null (f_phone frm),
      qi_company = or_null (f_company frm),
      qi_message = or_null (f_message frm),
      qi_status = ''pending'',
      qi_request_number = ''REQ-'' @ show_nat (date_now env),
      qi_created_at = clock_iso env 1\<rparr>"

definition serviceInserts :: "quote_row \<Rightarrow> string list \<Rightarrow> service_insert list" where
  "serviceInserts quoteData sel =
     map (\<lambda>serviceId.
            \<lparr>si_quote_request_id = row_id quoteData,
             si_service_name = service_name_of serviceId,
             si_custom_description = None,
             si_estimated_price = None,
             si_final_price = None\<rparr>) sel"

definition emailData :: "browser_env \<Rightarrow> contact_form \<Rightarrow> string list \<Rightarrow> QuoteRequestData" where
  "emailData env frm sel =
     \<lparr>q_name = f_name frm,
      q_company = f_company frm,
      q_email = f_email frm,
      q_phone = f_phone frm,
      q_budget = f_budget frm,
      q_timeline = f_timeline frm,
      q_message = f_message frm,
      q_selectedServices = map email_title_of sel,
      q_timestamp = clock_iso env 2\<rparr>"

text \<open>
  The \<^verbatim>\<open>try\<close> block of \<^verbatim>\<open>handleSubmit\<close>, in three steps. Each step yields whether the
  block is still running normally or has thrown, and the effects so far.
\<close>

definition notify_step :: "browser_env \<Rightarrow> contact_form \<Rightarrow> string list \<Rightarrow> unit outcome \<times> event list" where
  "notify_step env frm sel =
     (let (emailResult, evs) = sendQuoteRequestEmails (mail env) (emailData env frm sel)
      in (Returns (),
          evs @ (if \<not> er_success emailResult
                 then [ConsoleWarn ''Email sending failed:'' (er_message emailResult)]
                 else [])))"

definition services_step ::
  "browser_env \<Rightarrow> quote_row \<Rightarrow> contact_form \<Rightarrow> string list \<Rightarrow> unit outcome \<times> event list" where
  "services_step env quoteData frm sel =
     (if length sel > 0 then
        (let rows = serviceInserts quoteData sel in
         case db_insert_services env rows of
           Throws t \<Rightarrow> (Throws t, [InsertQuoteServices rows])
         | Returns (DbError servicesError) \<Rightarrow>
             (Throws (JsError ''Failed to save selected services''),
              [InsertQuoteServices rows, ConsoleError ''Services insert error:'' servicesError])
         | Returns (DbData u) \<Rightarrow>
             (let (r, evs) = notify_step env frm sel in (r, InsertQuoteServices rows # evs)))
      else notify_step env frm sel)"

definition submit_try :: "browser_env \<Rightarrow> contact_form \<Rightarrow> string list \<Rightarrow> unit outcome \<times> event list" where
  "submit_try env frm sel =
     (let ins = quote_insert_of env frm in
      case db_insert_quote env ins of
        Throws t \<Rightarrow> (Throws t, [InsertQuoteRequest ins])
      | Returns (DbError quoteError) \<Rightarrow>
          (Throws (JsError ''Failed to save quote request''),
           [InsertQuoteRequest ins, ConsoleError ''Database error:'' quoteError])
      | Returns (DbData quoteData) \<Rightarrow>
          (let (r, evs) = services_step env quoteData frm sel in (r, InsertQuoteRequest ins # evs)))"

definition required_missing :: "ui_state \<Rightarrow> bool" where
  "required_missing s = (f_name (form s) = [] \<or> f_email (form s) = [] \<or> length (selected s) = 0)"

text \<open>\<^verbatim>\<open>err instanceof Error ? err.message : "We couldn't ..."\<close>.\<close>

fun catch_message :: "js_thrown \<Rightarrow> string" where
  "catch_message (JsError m) = m"
| "catch_message (JsOther v) = ''We couldn't submit your request. Try again later.''"

definition handleSubmit :: "browser_env \<Rightarrow> ui_state \<Rightarrow> ui_state \<times> event list" where
  "handleSubmit env s =
     (let s1 = s\<lparr>error := None\<rparr> in
      if required_missing s
      then (s1\<lparr>error := Some ''Please provide your name, email and select at least one service.''\<rparr>, [])
      else
        (let s2 = s1\<lparr>submitting := True\<rparr> in
         case submit_try env (form s) (selected s) of
           (Returns u, evs) \<Rightarrow>
             (s2\<lparr>success := Some ''Request sent successfully. Our team will contact you shortly.'',
                 selected := [],
                 form := EMPTY_FORM,
                 submitting := False\<rparr>, evs)
         | (Throws err, evs) \<Rightarrow>
             (s2\<lparr>error := Some (catch_message err), submitting := False\<rparr>,
              evs @ [ConsoleError [] (thrown_text err)])))"

section \<open>The submission handler on the server\<close>

text \<open>
  The request body as the handler's interface declares it. The body itself, its
  contact and its service list may be absent (\<^verbatim>\<open>?.\<close> guards the last two); once
  the required-fields check has passed both are present, so the last branch of
  \<^verbatim>\<open>handler\<close> below is never taken.
\<close>

record server_contact =
  sc_name :: string
  sc_company :: "string option"
  sc_email :: string
  sc_phone :: "string option"
  sc_budget :: string
  sc_timeline :: string
  sc_message :: "string option"

record server_service =
  sv_id :: string
  sv_name :: string
  sv_category :: string
  sv_description :: "string option"

record server_body =
  b_contact :: "server_contact option"
  b_services :: "server_service list option"
  b_timestamp :: string

record request =
  req_method :: string
  req_body :: "server_body option"

datatype json = EmptyObject | ErrorJson string | SuccessJson string string

record response =
  res_status :: nat
  res_json :: json
  res_cors :: bool

record server_quote_insert =
  sq_name :: string
  sq_company :: "string option"
  sq_email :: string
  sq_phone :: "string option"
  sq_budget_range :: string
  sq_timeline :: string
  sq_message :: "string option"
  sq_status :: string

record server_service_insert =
  ssi_quote_request_id :: string
  ssi_service_name :: string
  ssi_custom_description :: "string option"

record server_mail =
  sm_to :: string
  sm_subject :: string
  sm_html :: string

datatype server_event =
    SInsertQuoteRequest server_quote_insert
  | SInsertQuoteServices "server_service_insert list"
  | SPostEmail server_mail
  | SConsoleError string string

fun is_server_network_call :: "server_event \<Rightarrow> bool" where
  "is_server_network_call (SConsoleError l d) = False"
| "is_server_network_call e = True"

fun is_server_services_insert :: "server_event \<Rightarrow> bool" where
  "is_server_services_insert (SInsertQuoteServices rows) = True"
| "is_server_services_insert e = False"

record server_env =
  srv_ADMIN_EMAIL :: string
  srv_insert_quote :: "server_quote_insert \<Rightarrow> quote_row db_reply outcome"
  srv_insert_services :: "server_service_insert list \<Rightarrow> unit db_reply outcome"
  generateAdminEmailHTML :: "server_body \<Rightarrow> string \<Rightarrow> string"
  generateClientEmailHTML :: "server_body \<Rightarrow> string \<Rightarrow> string"
  srv_fetch_admin :: "server_mail \<Rightarrow> http_response outcome"
  srv_fetch_client :: "server_mail \<Rightarrow> http_response outcome"

text \<open>
  The server's \<^verbatim>\<open>sendEmail\<close>: it throws on a non-2xx answer, and a rejected
  \<^verbatim>\<open>fetch\<close> passes through (as does a 2xx answer whose body cannot be parsed,
  counted here among the rejections).
\<close>

definition sendEmail ::
  "(server_mail \<Rightarrow> http_response outcome) \<Rightarrow> server_mail \<Rightarrow> unit outcome \<times> server_event list" where
  "sendEmail fetch m =
     (case fetch m of
        Throws t \<Rightarrow> (Throws t, [SPostEmail m])
      | Returns r \<Rightarrow>
          if \<not> response_ok r
          then (Throws (JsError (''Email sending failed: '' @ h_body r)), [SPostEmail m])
          else (Returns (), [SPostEmail m]))"

definition server_admin_mail :: "server_env \<Rightarrow> server_body \<Rightarrow> quote_row \<Rightarrow> server_mail" where
  "server_admin_mail env data quoteRequest =
     \<lparr>sm_to = srv_ADMIN_EMAIL env,
      sm_subject = ''New Quote Request - '' @ row_request_number quoteRequest,
      sm_html = generateAdminEmailHTML env data (row_request_number quoteRequest)\<rparr>"

definition server_client_mail ::
  "server_env \<Rightarrow> server_body \<Rightarrow> server_contact \<Rightarrow> quote_row \<Rightarrow> server_mail" where
  "server_client_mail env data contact quoteRequest =
     \<lparr>sm_to = sc_email contact,
      sm_subject = ''Quote Request Received - '' @ row_request_number quoteRequest,
      sm_html = generateClientEmailHTML env data (row_request_number quoteRequest)\<rparr>"

text \<open>The inner \<^verbatim>\<open>try\<close>: admin message, then client message; the first throw is logged.\<close>

definition server_send_emails ::
  "server_env \<Rightarrow> server_body \<Rightarrow> server_contact \<Rightarrow> quote_row \<Rightarrow> server_event list" where
  "server_send_emails env data contact quoteRequest =
     (case sendEmail (srv_fetch_admin env) (server_admin_mail env data quoteRequest) of
        (Throws emailError, ev1) \<Rightarrow>
          ev1 @ [SConsoleError ''Email sending error:'' (thrown_text emailError)]
      | (Returns u, ev1) \<Rightarrow>
          (case sendEmail (srv_fetch_client env)
                  (server_client_mail env data contact quoteRequest) of
             (Throws emailError, ev2) \<Rightarrow>
               ev1 @ ev2 @ [SConsoleError ''Email sending error:'' (thrown_text emailError)]
           | (Returns v, ev2) \<Rightarrow> ev1 @ ev2))"

definition server_quote_insert_of :: "server_contact \<Rightarrow> server_quote_insert" where
  "server_quote_insert_of contact =
     \<lparr>sq_name = sc_name contact,
      sq_company = sc_company contact,
      sq_email = sc_email contact,
      sq_phone = sc_phone contact,
      sq_budget_range = sc_budget contact,
      sq_timeline = sc_timeline contact,
      sq_message = sc_message contact,
      sq_status = ''pending''\<rparr>"

definition server_serviceInserts :: "quote_row \<Rightarrow> server_service list \<Rightarrow> server_service_insert list" where
  "server_serviceInserts quoteRequest services =
     map (\<lambda>svc.
            \<lparr>ssi_quote_request_id = row_id quoteRequest,
             ssi_service_name = sv_name svc,
             ssi_custom_description = sv_description svc\<rparr>) services"

definition json_response :: "nat \<Rightarrow> json \<Rightarrow> response" where
  "json_response code j = \<lparr>res_status = code, res_json = j, res_cors = True\<rparr>"

definition internal_error :: "js_thrown \<Rightarrow> server_event list \<Rightarrow> response \<times> server_event list" where
  "internal_error t evs =
     (json_response 500 (ErrorJson ''Internal server error''),
      evs @ [SConsoleError ''API error:'' (thrown_text t)])"

text \<open>
  After the request row is stored: the service rows (a failure there is logged and
  nothing more), the e-mails, and the 200 answer.
\<close>

definition server_after_insert ::
  "server_env \<Rightarrow> server_body \<Rightarrow> server_contact \<Rightarrow> server_service list \<Rightarrow> quote_row
   \<Rightarrow> response \<times> server_event list" where
  "server_after_insert env data contact services quoteRequest =
     (let done = (\<lambda>evs.
            (json_response 200
               (SuccessJson (row_request_number quoteRequest)
                            ''Quote request submitted successfully''),
             evs @ server_send_emails env data contact quoteRequest))
      in if length services > 0 then
           (let rows = server_serviceInserts quoteRequest services in
            case srv_insert_services env rows of
              Throws t \<Rightarrow> internal_error t [SInsertQuoteServices rows]
            | Returns (DbError servicesError) \<Rightarrow>
                done [SInsertQuoteServices rows,
                      SConsoleError ''Services insert error:'' servicesError]
            | Returns (DbData u) \<Rightarrow> done [SInsertQuoteServices rows])
         else done [])"

definition server_required_missing :: "server_body \<Rightarrow> bool" where
  "server_required_missing data =
     ((case b_contact data of None \<Rightarrow> True | Some c \<Rightarrow> sc_name c = [])
      \<or> (case b_contact data of None \<Rightarrow> True | Some c \<Rightarrow> sc_email c = [])
      \<or> (case b_services data of None \<Rightarrow> True | Some ss \<Rightarrow> length ss = 0))"

definition handler :: "server_env \<Rightarrow> request \<Rightarrow> response \<times> server_event list" where
  "handler env req =
     (if req_method req = ''OPTIONS''
      then (\<lparr>res_status = 200, res_json = EmptyObject, res_cors = False\<rparr>, [])
      else if req_method req \<noteq> ''POST''
      then (json_response 405 (ErrorJson ''Method not allowed''), [])
      else
        (case req_body req of
           None \<Rightarrow>
             internal_error
               (JsError ''Cannot read properties of undefined (reading 'contact')'') []
         | Some data \<Rightarrow>
             if server_required_missing data
             then (json_response 400 (ErrorJson ''Missing required fields''), [])
             else
               (case (b_contact data, b_services data) of
                  (Some contact, Some services) \<Rightarrow>
                    (let ins = server_quote_insert_of contact in
                     case srv_insert_quote env ins of
                       Throws t \<Rightarrow> internal_error t [SInsertQuoteRequest ins]
                     | Returns (DbError dbError) \<Rightarrow>
                         (json_response 500 (ErrorJson ''Failed to save quote request''),
                          [SInsertQuoteRequest ins, SConsoleError ''Database error:'' dbError])
                     | Returns (DbData quoteRequest) \<Rightarrow>
                         (let (res, evs) = server_after_insert env data contact services quoteRequest
                          in (res, SInsertQuoteRequest ins # evs)))
                | _ \<Rightarrow>
                    internal_error
                      (JsError ''Cannot read properties of undefined (reading 'name')'') [])))"

section \<open>Sample surroundings and inputs\<close>

text \<open>
  Concrete surroundings for running the model: a mail set-up whose two POSTs get the
  given answers, a browser environment whose two inserts get the given answers, and the
  filled-in form of the end-to-end scenario.
\<close>

definition sample_mail :: "http_response outcome \<Rightarrow> http_response outcome \<Rightarrow> mail_env" where
  "sample_mail admin_reply client_reply =
     \<lparr>ADMIN_EMAIL = ''admin@example.com'',
      FROM_EMAIL = ''noreply@example.com'',
      generateQuoteRequestPDF = (\<lambda>d. Returns ''JVBERi0xLjM=''),
      generateQuoteRequestEmailHTML = (\<lambda>d. ''<div>'' @ q_name d @ ''</div>''),
      generateClientConfirmationHTML = (\<lambda>d. ''<h2>Thank you, '' @ q_name d @ ''!</h2>''),
      fetch_admin = (\<lambda>p. admin_reply),
      fetch_client = (\<lambda>p. client_reply)\<rparr>"

definition sample_env ::
  "quote_row db_reply outcome \<Rightarrow> unit db_reply outcome \<Rightarrow> mail_env \<Rightarrow> browser_env" where
  "sample_env quote_reply services_reply m =
     \<lparr>db_insert_quote = (\<lambda>q. quote_reply),
      db_insert_services = (\<lambda>rows. services_reply),
      date_now = 1700000000000,
      clock_iso = (\<lambda>k. ''2023-11-14T22:13:20.000Z''),
      mail = m\<rparr>"

definition http_ok :: "http_response outcome" where
  "http_ok = Returns \<lparr>h_status = 200, h_body = ''{}''\<rparr>"

definition http_down :: "http_response outcome" where
  "http_down = Returns \<lparr>h_status = 500, h_body = ''unavailable''\<rparr>"

definition sample_row :: quote_row where
  "sample_row = \<lparr>row_id = ''7f1c'', row_request_number = ''QR2023110001''\<rparr>"

definition sample_form :: "string \<Rightarrow> string \<Rightarrow> contact_form" where
  "sample_form n e =
     \<lparr>f_name = n, f_company = [], f_email = e, f_phone = [], f_budget = ''5k-20k'',
      f_timeline = ''1-3'', f_message = []\<rparr>"

definition sample_state :: "contact_form \<Rightarrow> string list \<Rightarrow> ui_state" where
  "sample_state frm sel =
     \<lparr>expandedCategory = None, selected = sel, form = frm, submitting = False,
      success = None, error = None\<rparr>"

definition sample_server_env ::
  "quote_row db_reply outcome \<Rightarrow> unit db_reply outcome \<Rightarrow> http_response outcome
   \<Rightarrow> http_response outcome \<Rightarrow> server_env" where
  "sample_server_env quote_reply services_reply admin_reply client_reply =
     \<lparr>srv_ADMIN_EMAIL = ''admin@example.com'',
      srv_insert_quote = (\<lambda>q. quote_reply),
      srv_insert_services = (\<lambda>rows. services_reply),
      generateAdminEmailHTML = (\<lambda>d n. ''<h2>New Quote Request - '' @ n @ ''</h2>''),
      generateClientEmailHTML = (\<lambda>d n. ''<p>Reference: '' @ n @ ''</p>''),
      srv_fetch_admin = (\<lambda>m. admin_reply),
      srv_fetch_client = (\<lambda>m. client_reply)\<rparr>"

definition sample_request :: "string \<Rightarrow> string \<Rightarrow> server_service list \<Rightarrow> request" where
  "sample_request n e ss =
     \<lparr>req_method = ''POST'',
      req_body = Some
        \<lparr>b_contact = Some
           \<lparr>sc_name = n, sc_company = None, sc_email = e, sc_phone = None,
            sc_budget = ''5k-20k'', sc_timeline = ''1-3'', sc_message = None\<rparr>,
         b_services = Some ss,
         b_timestamp = ''2023-11-14T22:13:20.000Z''\<rparr>\<rparr>"

definition seo_service :: server_service where
  "seo_service =
     \<lparr>sv_id = ''seo'', sv_name = ''SEO & Listing Optimization'',
      sv_category = ''Digital Presence & Web'', sv_description = None\<rparr>"

definition sample_data :: "string \<Rightarrow> QuoteRequestData" where
  "sample_data e =
     \<lparr>q_name = ''Jane Doe'', q_company = [], q_email = e, q_phone = [],
      q_budget = ''5k-20k'', q_timeline = ''1-3'', q_message = [],
      q_selectedServices = [''SEO & Listing Optimization''],
      q_timestamp = ''2023-11-14T22:13:20.000Z''\<rparr>"

section \<open>Facts about the catalogue\<close>

lemma catalogue_ids_distinct: "distinct (map s_id (all_services SERVICE_CATEGORIES))"
  by (simp add: all_services_def SERVICE_CATEGORIES_def)

lemma scan_services_absent:
  "i \<notin> s_id ` set ss \<Longrightarrow> scan_services ss i = None"
  by (induction ss) auto

lemma scan_services_present:
  "distinct (map s_id ss) \<Longrightarrow> s \<in> set ss \<Longrightarrow> scan_services ss (s_id s) = Some (s_title s)"
  by (induction ss) (auto simp: rev_image_eqI)

lemma scan_categories_absent:
  "i \<notin> s_id ` set (all_services cats) \<Longrightarrow> scan_categories cats i = i"
proof (induction cats)
  case Nil
  show ?case by simp
next
  case (Cons cat cats)
  from Cons.prems have a: "i \<notin> s_id ` set (c_services cat)"
    and b: "i \<notin> s_id ` set (all_services cats)"
    by (auto simp: all_services_def)
  show ?case using Cons.IH [OF b] by (simp add: scan_services_absent [OF a])
qed

lemma scan_categories_present:
  "distinct (map s_id (all_services cats)) \<Longrightarrow> s \<in> set (all_services cats)
   \<Longrightarrow> scan_categories cats (s_id s) = s_title s"
proof (induction cats)
  case Nil
  then show ?case by (simp add: all_services_def)
next
  case (Cons cat cats)
  from Cons.prems(1) have d1: "distinct (map s_id (c_services cat))"
    and d2: "distinct (map s_id (all_services cats))"
    and dj: "s_id ` set (c_services cat) \<inter> s_id ` set (all_services cats) = {}"
    by (simp_all add: all_services_def)
  show ?case
  proof (cases "s \<in> set (c_services cat)")
    case True
    then show ?thesis using d1 by (simp add: scan_services_present)
  next
    case False
    with Cons.prems(2) have m: "s \<in> set (all_services cats)"
      by (simp add: all_services_def)
    then have "s_id s \<notin> s_id ` set (c_services cat)" using dj by blast
    then show ?thesis using Cons.IH [OF d2 m] by (simp add: scan_services_absent)
  qed
qed

section \<open>Facts about toggling\<close>

lemma toggleService_distinct: "distinct prev \<Longrightarrow> distinct (toggleService t prev)"
  by (simp add: toggleService_def)

lemma toggleService_member:
  "(i \<in> set (toggleService t prev)) = (if i = t then i \<notin> set prev else i \<in> set prev)"
  by (auto simp: toggleService_def)

lemma toggles_snoc: "toggles (ts @ [t]) sel = toggleService t (toggles ts sel)"
  by (simp add: toggles_def)

lemma toggles_distinct: "distinct sel \<Longrightarrow> distinct (toggles ts sel)"
  by (induction ts rule: rev_induct) (simp_all add: toggles_def toggleService_distinct)

lemma toggles_member:
  "(i \<in> set (toggles ts sel)) = (if even (count_list ts i) then i \<in> set sel else i \<notin> set sel)"
proof (induction ts rule: rev_induct)
  case Nil
  show ?case by (simp add: toggles_def)
next
  case (snoc t ts)
  show ?case
    unfolding toggles_snoc toggleService_member using snoc.IH by (cases "i = t") simp_all
qed

section \<open>Facts about the regular-expression matcher\<close>

text \<open>
  The matcher decides membership in the language of the expression, and the e-mail
  expression accepts exactly the strings \<open>a@b.c\<close> with \<open>a\<close>, \<open>b\<close>, \<open>c\<close> non-empty and
  free of white space and of \<open>@\<close>.
\<close>

lemma nullable_lang: "nullable r = ([] \<in> lang r)"
  by (induction r) (auto intro: star_nil)

lemma star_Cons_split:
  assumes "x \<in> star A" and "x = c # w"
  shows "\<exists>u v. w = u @ v \<and> c # u \<in> A \<and> v \<in> star A"
  using assms
proof (induction arbitrary: w rule: star.induct)
  case star_nil
  then show ?case by simp
next
  case (star_app u v)
  show ?case
  proof (cases u)
    case Nil
    with star_app show ?thesis by simp
  next
    case (Cons a u')
    with star_app.prems have "a = c" and "w = u' @ v" by simp_all
    with Cons star_app.hyps show ?thesis by blast
  qed
qed

lemma star_Cons_iff:
  "(c # w \<in> star A) = (\<exists>u v. w = u @ v \<and> c # u \<in> A \<and> v \<in> star A)"
proof
  assume "c # w \<in> star A"
  then show "\<exists>u v. w = u @ v \<and> c # u \<in> A \<and> v \<in> star A"
    by (rule star_Cons_split) simp
next
  assume "\<exists>u v. w = u @ v \<and> c # u \<in> A \<and> v \<in> star A"
  then obtain u v where "w = u @ v" and "c # u \<in> A" and "v \<in> star A" by blast
  then show "c # w \<in> star A" using star_app [of "c # u" A v] by simp
qed

lemma deriv_lang: "(w \<in> lang (deriv c r)) = (c # w \<in> lang r)"
proof (induction r arbitrary: w)
  case (Seq r1 r2)
  show ?case
    by (auto simp: Seq.IH nullable_lang Cons_eq_append_conv)
next
  case (Rep r)
  show ?case
    by (auto simp: Rep.IH star_Cons_iff)
qed simp_all

lemma rx_test_lang: "rx_test r s = (s \<in> lang r)"
  by (induction s arbitrary: r) (simp_all add: nullable_lang deriv_lang)

lemma star_sym: "(w \<in> star {[c] | c. p c}) = (\<forall>x \<in> set w. p x)"
proof
  assume "w \<in> star {[c] | c. p c}"
  then show "\<forall>x \<in> set w. p x"
    by (induction rule: star.induct) auto
next
  assume "\<forall>x \<in> set w. p x"
  then show "w \<in> star {[c] | c. p c}"
  proof (induction w)
    case Nil
    show ?case by (rule star_nil)
  next
    case (Cons a w)
    then have "[a] \<in> {[c] | c. p c}" and "w \<in> star {[c] | c. p c}" by auto
    then have "[a] @ w \<in> star {[c] | c. p c}" by (rule star_app)
    then show ?case by simp
  qed
qed

lemma lang_SeqI: "u \<in> lang r \<Longrightarrow> v \<in> lang s \<Longrightarrow> u @ v \<in> lang (Seq r s)"
  by auto

lemma lang_SeqE:
  assumes "w \<in> lang (Seq r s)"
  obtains u v where "w = u @ v" and "u \<in> lang r" and "v \<in> lang s"
  using assms by auto

lemma lang_Sym_iff: "(w \<in> lang (Sym p)) = (\<exists>c. w = [c] \<and> p c)"
  by auto

lemma lang_one_or_more_sym:
  "(w \<in> lang (one_or_more (Sym p))) = (w \<noteq> [] \<and> (\<forall>x \<in> set w. p x))"
proof
  assume "w \<in> lang (one_or_more (Sym p))"
  then obtain u v where w: "w = u @ v" and u: "u \<in> lang (Sym p)" and v: "v \<in> lang (Rep (Sym p))"
    unfolding one_or_more_def by (rule lang_SeqE)
  from u obtain c where "u = [c]" and "p c" by (auto simp only: lang_Sym_iff)
  moreover from v have "\<forall>x \<in> set v. p x" by (simp add: star_sym)
  ultimately show "w \<noteq> [] \<and> (\<forall>x \<in> set w. p x)" using w by simp
next
  assume a: "w \<noteq> [] \<and> (\<forall>x \<in> set w. p x)"
  then obtain c v where w: "w = [c] @ v" by (cases w) auto
  with a have "[c] \<in> lang (Sym p)" and "v \<in> lang (Rep (Sym p))"
    by (simp_all add: star_sym)
  then have "[c] @ v \<in> lang (Seq (Sym p) (Rep (Sym p)))" by (rule lang_SeqI)
  then show "w \<in> lang (one_or_more (Sym p))" by (simp only: w one_or_more_def)
qed

lemma email_rx_meaning:
  "rx_test EMAIL_RX s =
     (\<exists>a b c. s = a @ ''@'' @ b @ ''.'' @ c \<and> a \<noteq> [] \<and> b \<noteq> [] \<and> c \<noteq> []
        \<and> (\<forall>x \<in> set (a @ b @ c). \<not> is_ws x \<and> x \<noteq> CHR ''@''))"
proof
  let ?P = "one_or_more (Sym not_ws_or_at)"
  assume "rx_test EMAIL_RX s"
  then have "s \<in> lang (Seq ?P (Seq (Sym (\<lambda>c. c = CHR ''@''))
                (Seq ?P (Seq (Sym (\<lambda>c. c = CHR ''.'')) ?P))))"
    by (simp only: rx_test_lang EMAIL_RX_def)
  then obtain a r1 where 1: "s = a @ r1" "a \<in> lang ?P"
    and m1: "r1 \<in> lang (Seq (Sym (\<lambda>c. c = CHR ''@'')) (Seq ?P (Seq (Sym (\<lambda>c. c = CHR ''.'')) ?P)))"
    by (rule lang_SeqE)
  from m1 obtain at r2 where 2: "r1 = at @ r2" "at \<in> lang (Sym (\<lambda>c. c = CHR ''@''))"
    and m2: "r2 \<in> lang (Seq ?P (Seq (Sym (\<lambda>c. c = CHR ''.'')) ?P))"
    by (rule lang_SeqE)
  from m2 obtain b r3 where 3: "r2 = b @ r3" "b \<in> lang ?P"
    and m3: "r3 \<in> lang (Seq (Sym (\<lambda>c. c = CHR ''.'')) ?P)"
    by (rule lang_SeqE)
  from m3 obtain dot c where 4: "r3 = dot @ c" "dot \<in> lang (Sym (\<lambda>c. c = CHR ''.''))" "c \<in> lang ?P"
    by (rule lang_SeqE)
  from 2(2) 4(2) have "at = ''@''" and "dot = ''.''" by (simp_all only: lang_Sym_iff) auto
  with 1 2 3 4 have s: "s = a @ ''@'' @ b @ ''.'' @ c" by simp
  from 1(2) 3(2) 4(3)
  have r: "a \<noteq> [] \<and> b \<noteq> [] \<and> c \<noteq> [] \<and> (\<forall>x \<in> set (a @ b @ c). \<not> is_ws x \<and> x \<noteq> CHR ''@'')"
    by (simp add: lang_one_or_more_sym not_ws_or_at_def ball_Un)
  show "\<exists>a b c. s = a @ ''@'' @ b @ ''.'' @ c \<and> a \<noteq> [] \<and> b \<noteq> [] \<and> c \<noteq> []
        \<and> (\<forall>x \<in> set (a @ b @ c). \<not> is_ws x \<and> x \<noteq> CHR ''@'')"
    using s r by (intro exI [of _ a] exI [of _ b] exI [of _ c] conjI) simp_all
next
  let ?P = "one_or_more (Sym not_ws_or_at)"
  assume "\<exists>a b c. s = a @ ''@'' @ b @ ''.'' @ c \<and> a \<noteq> [] \<and> b \<noteq> [] \<and> c \<noteq> []
        \<and> (\<forall>x \<in> set (a @ b @ c). \<not> is_ws x \<and> x \<noteq> CHR ''@'')"
  then obtain a b c where s: "s = a @ ''@'' @ b @ ''.'' @ c"
    and ne: "a \<noteq> []" "b \<noteq> []" "c \<noteq> []"
    and cl: "\<forall>x \<in> set (a @ b @ c). \<not> is_ws x \<and> x \<noteq> CHR ''@''"
    by (elim exE conjE)
  from ne cl have a: "a \<in> lang ?P" and b: "b \<in> lang ?P" and c: "c \<in> lang ?P"
    by (simp_all add: lang_one_or_more_sym not_ws_or_at_def ball_Un)
  have at: "''@'' \<in> lang (Sym (\<lambda>c. c = CHR ''@''))" and dot: "''.'' \<in> lang (Sym (\<lambda>c. c = CHR ''.''))"
    by simp_all
  have "a @ ''@'' @ b @ ''.'' @ c \<in> lang EMAIL_RX"
    unfolding EMAIL_RX_def
    by (intro lang_SeqI a b c at dot)
  then show "rx_test EMAIL_RX s" by (simp only: rx_test_lang s)
qed

section \<open>Facts about title resolution during submission\<close>

lemma catalogue_titles_nonempty:
  "\<forall>svc \<in> set (all_services SERVICE_CATEGORIES). s_title svc \<noteq> []"
  by (simp add: all_services_def SERVICE_CATEGORIES_def)

lemma find_Some_scan:
  "List.find (\<lambda>s. s_id s = i) ss = Some svc \<Longrightarrow> scan_services ss i = Some (s_title svc)"
  by (induction ss) (auto split: if_splits)

lemma find_None_scan:
  "List.find (\<lambda>s. s_id s = i) ss = None \<Longrightarrow> scan_services ss i = None"
  by (induction ss) (auto split: if_splits)

lemma find_service_scan:
  "scan_categories cats i = (case find_service cats i of Some svc \<Rightarrow> s_title svc | None \<Rightarrow> i)"
  by (induction cats) (auto split: option.splits dest: find_Some_scan find_None_scan)

lemma find_service_member:
  "find_service cats i = Some svc \<Longrightarrow> svc \<in> set (all_services cats) \<and> s_id svc = i"
  by (induction cats) (auto simp: all_services_def find_Some_iff split: option.splits)

lemma email_title_of_eq: "email_title_of i = serviceTitleById i"
  by (simp add: email_title_of_def serviceTitleById_def find_service_scan)

lemma service_name_of_eq: "service_name_of i = serviceTitleById i"
proof (cases "find_service SERVICE_CATEGORIES i")
  case None
  then show ?thesis
    by (simp add: service_name_of_def serviceTitleById_def find_service_scan)
next
  case (Some svc)
  then have "s_title svc \<noteq> []"
    using find_service_member catalogue_titles_nonempty by blast
  with Some show ?thesis
    by (simp add: service_name_of_def serviceTitleById_def find_service_scan or_else_def)
qed

lemma serviceTitleById_present:
  "svc \<in> set (all_services SERVICE_CATEGORIES) \<Longrightarrow> serviceTitleById (s_id svc) = s_title svc"
  by (simp add: serviceTitleById_def scan_categories_present [OF catalogue_ids_distinct])

lemma serviceTitleById_absent:
  "i \<notin> s_id ` set (all_services SERVICE_CATEGORIES) \<Longrightarrow> serviceTitleById i = i"
  by (simp add: serviceTitleById_def scan_categories_absent)

section \<open>Facts about the steps of a submission\<close>

lemma notify_step_returns: "fst (notify_step env frm sel) = Returns ()"
  by (simp add: notify_step_def split_def Let_def)

lemma emails_success_iff:
  "er_success (fst (sendQuoteRequestEmails m d)) = (isValid d \<and> fst (sendQuoteRequestEmail m d))"
  by (simp add: sendQuoteRequestEmails_def split_def Let_def)

lemma notify_step_warns:
  "\<not> er_success (fst (sendQuoteRequestEmails (mail env) (emailData env frm sel)))
   \<Longrightarrow> \<exists>m. last (snd (notify_step env frm sel)) = ConsoleWarn ''Email sending failed:'' m"
  by (simp add: notify_step_def split_def Let_def)

lemma notify_step_nonempty_on_failure:
  "\<not> er_success (fst (sendQuoteRequestEmails (mail env) (emailData env frm sel)))
   \<Longrightarrow> snd (notify_step env frm sel) \<noteq> []"
  by (simp add: notify_step_def split_def Let_def)

lemma submit_try_persisted:
  "db_insert_quote env (quote_insert_of env frm) = Returns (DbData row)
   \<Longrightarrow> db_insert_services env (serviceInserts row sel) = Returns (DbData ())
   \<Longrightarrow> sel \<noteq> []
   \<Longrightarrow> submit_try env frm sel =
       (Returns (), InsertQuoteRequest (quote_insert_of env frm)
          # InsertQuoteServices (serviceInserts row sel)
          # snd (notify_step env frm sel))"
  by (simp add: submit_try_def services_step_def split_def Let_def notify_step_returns)

lemma sender_events:
  "filter is_quote_insert (snd (sendQuoteRequestEmail m d)) = []"
  "filter is_services_insert (snd (sendQuoteRequestEmail m d)) = []"
  "filter is_quote_insert (snd (sendClientConfirmationEmail m d)) = []"
  "filter is_services_insert (snd (sendClientConfirmationEmail m d)) = []"
  by (simp_all add: sendQuoteRequestEmail_def sendClientConfirmationEmail_def post_result_def
      split_def Let_def split: outcome.splits)

lemma notify_step_no_inserts:
  "filter is_quote_insert (snd (notify_step env frm sel)) = []"
  "filter is_services_insert (snd (notify_step env frm sel)) = []"
  by (simp_all add: notify_step_def sendQuoteRequestEmails_def split_def Let_def sender_events)

lemma invalid_payload:
  "q_name d = [] \<or> q_selectedServices d = [] \<or> \<not> rx_test EMAIL_RX (q_email d) \<Longrightarrow> \<not> isValid d"
  by (auto simp: isValid_def validation_errors_def)

lemma submit_try_throws_iff:
  assumes "sel \<noteq> []"
  shows "(\<exists>x. fst (submit_try env frm sel) = Throws x) =
     ((\<exists>e. db_insert_quote env (quote_insert_of env frm) = Returns (DbError e))
      \<or> (\<exists>t. db_insert_quote env (quote_insert_of env frm) = Throws t)
      \<or> (\<exists>row. db_insert_quote env (quote_insert_of env frm) = Returns (DbData row)
            \<and> ((\<exists>e. db_insert_services env (serviceInserts row sel) = Returns (DbError e))
               \<or> (\<exists>t. db_insert_services env (serviceInserts row sel) = Throws t))))"
  using assms
  by (auto simp: submit_try_def services_step_def Let_def split_def notify_step_returns
      split: outcome.splits db_reply.splits)

lemma handleSubmit_services_insert_failure:
  assumes "f_name (form s) \<noteq> []" and "f_email (form s) \<noteq> []" and "selected s \<noteq> []"
    and "db_insert_quote env (quote_insert_of env (form s)) = Returns (DbData row)"
    and "db_insert_services env (serviceInserts row (selected s)) = Returns (DbError e)"
  shows "fst (handleSubmit env s) =
           s\<lparr>error := Some ''Failed to save selected services'', submitting := False\<rparr>"
    and "filter is_email_post (snd (handleSubmit env s)) = []"
  using assms
  by (simp_all add: handleSubmit_def required_missing_def submit_try_def services_step_def Let_def)

lemma handler_services_insert_failure:
  assumes "req_method req = ''POST''" and "req_body req = Some data"
    and "b_contact data = Some c" and "sc_name c \<noteq> []" and "sc_email c \<noteq> []"
    and "b_services data = Some ss" and "ss \<noteq> []"
    and "srv_insert_quote senv (server_quote_insert_of c) = Returns (DbData row)"
    and "srv_insert_services senv (server_serviceInserts row ss) = Returns (DbError e)"
  shows "fst (handler senv req) =
           \<lparr>res_status = 200,
            res_json = SuccessJson (row_request_number row) ''Quote request submitted successfully'',
            res_cors = True\<rparr>"
  using assms
  by (simp add: handler_def server_required_missing_def server_after_insert_def json_response_def)

section \<open>Claims\<close>

text \<open>
  C1. A submission whose name is empty, whose e-mail is empty or whose selection is
  empty makes no network call at all (the effect trace is empty: no insert, no e-mail
  POST) and ends with a validation message shown to the user: in the browser the
  error state is set and \<^verbatim>\<open>handleSubmit\<close> returns normally; on the server the
  answer is a 400 with an error body.
\<close>

theorem C1_missing_fields_no_network:
  "(f_name (form s) = [] \<or> f_email (form s) = [] \<or> selected s = []
      \<longrightarrow> handleSubmit env s =
            (s\<lparr>error := Some ''Please provide your name, email and select at least one service.''\<rparr>, []))
   \<and> (req_method req = ''POST'' \<and> req_body req = Some data
        \<and> ((\<exists>c. b_contact data = Some c \<and> (sc_name c = [] \<or> sc_email c = []))
             \<or> b_contact data = None \<or> b_services data = Some [] \<or> b_services data = None)
      \<longrightarrow> handler senv req =
            (\<lparr>res_status = 400, res_json = ErrorJson ''Missing required fields'', res_cors = True\<rparr>, []))"
  by (auto simp: handleSubmit_def required_missing_def handler_def server_required_missing_def
      json_response_def)

theorem C1_missing_fields_no_network_witness:
  "handleSubmit (sample_env (Returns (DbData sample_row)) (Returns (DbData ())) (sample_mail http_ok http_ok))
       (sample_state (sample_form [] ''jane@x.com'') [''seo''])
     = ((sample_state (sample_form [] ''jane@x.com'') [''seo''])
          \<lparr>error := Some ''Please provide your name, email and select at least one service.''\<rparr>, [])
   \<and> handler (sample_server_env (Returns (DbData sample_row)) (Returns (DbData ())) http_ok http_ok)
        (sample_request ''Jane Doe'' [] [seo_service])
     = (\<lparr>res_status = 400, res_json = ErrorJson ''Missing required fields'', res_cors = True\<rparr>, [])"
  using C1_missing_fields_no_network
    [of "sample_state (sample_form [] ''jane@x.com'') [''seo'']"
        "sample_env (Returns (DbData sample_row)) (Returns (DbData ())) (sample_mail http_ok http_ok)"
        "sample_request ''Jane Doe'' [] [seo_service]"
        "the (req_body (sample_request ''Jane Doe'' [] [seo_service]))"
        "sample_server_env (Returns (DbData sample_row)) (Returns (DbData ())) http_ok http_ok"]
  by (simp add: sample_state_def sample_form_def sample_request_def)

text \<open>
  C2. When the insert of the request row comes back with an error, no insert of
  service rows is issued, and the message shown is the fixed text
  \<^verbatim>\<open>Failed to save quote request\<close> whatever the database's own error text is; the
  same holds for the server handler's 500 answer.
\<close>

theorem C2_request_insert_failure:
  "(f_name (form s) \<noteq> [] \<and> f_email (form s) \<noteq> [] \<and> selected s \<noteq> []
     \<and> db_insert_quote env (quote_insert_of env (form s)) = Returns (DbError e)
    \<longrightarrow> error (fst (handleSubmit env s)) = Some ''Failed to save quote request''
        \<and> filter is_services_insert (snd (handleSubmit env s)) = [])
   \<and> (req_method req = ''POST'' \<and> req_body req = Some data
        \<and> b_contact data = Some c \<and> sc_name c \<noteq> [] \<and> sc_email c \<noteq> []
        \<and> b_services data = Some ss \<and> ss \<noteq> []
        \<and> srv_insert_quote senv (server_quote_insert_of c) = Returns (DbError e')
      \<longrightarrow> fst (handler senv req) =
            \<lparr>res_status = 500, res_json = ErrorJson ''Failed to save quote request'', res_cors = True\<rparr>
          \<and> filter is_server_services_insert (snd (handler senv req)) = [])"
  by (auto simp: handleSubmit_def required_missing_def submit_try_def
      handler_def server_required_missing_def json_response_def)

theorem C2_request_insert_failure_witness:
  "error (fst (handleSubmit
       (sample_env (Returns (DbError ''duplicate key'')) (Returns (DbData ())) (sample_mail http_ok http_ok))
       (sample_state (sample_form ''Jane Doe'' ''jane@x.com'') [''seo''])))
     = Some ''Failed to save quote request''
   \<and> filter is_services_insert (snd (handleSubmit
       (sample_env (Returns (DbError ''duplicate key'')) (Returns (DbData ())) (sample_mail http_ok http_ok))
       (sample_state (sample_form ''Jane Doe'' ''jane@x.com'') [''seo'']))) = []
   \<and> fst (handler (sample_server_env (Returns (DbError ''duplicate key'')) (Returns (DbData ())) http_ok http_ok)
        (sample_request ''Jane Doe'' ''jane@x.com'' [seo_service]))
     = \<lparr>res_status = 500, res_json = ErrorJson ''Failed to save quote request'', res_cors = True\<rparr>
   \<and> filter is_server_services_insert
        (snd (handler (sample_server_env (Returns (DbError ''duplicate key'')) (Returns (DbData ())) http_ok http_ok)
        (sample_request ''Jane Doe'' ''jane@x.com'' [seo_service]))) = []"
  using C2_request_insert_failure
    [of "sample_state (sample_form ''Jane Doe'' ''jane@x.com'') [''seo'']"
        "sample_env (Returns (DbError ''duplicate key'')) (Returns (DbData ())) (sample_mail http_ok http_ok)"
        "''duplicate key''"
        "sample_request ''Jane Doe'' ''jane@x.com'' [seo_service]"
        "the (req_body (sample_request ''Jane Doe'' ''jane@x.com'' [seo_service]))"
        "the (b_contact (the (req_body (sample_request ''Jane Doe'' ''jane@x.com'' [seo_service]))))"
        "[seo_service]"
        "sample_server_env (Returns (DbError ''duplicate key'')) (Returns (DbData ())) http_ok http_ok"
        "''duplicate key''"]
  by (simp add: sample_state_def sample_form_def sample_request_def sample_env_def
      sample_server_env_def)

text \<open>
  C3. When both inserts succeed and both e-mail sends fail, the browser still shows the
  success message, empties the selection and the form, and sets no error; the failure
  only appears as a console warning. The server handler likewise answers 200 with the
  success body and only logs the e-mail error.
\<close>

theorem C3_email_failure_still_success:
  "(f_name (form s) \<noteq> [] \<and> f_email (form s) \<noteq> [] \<and> selected s \<noteq> []
     \<and> db_insert_quote env (quote_insert_of env (form s)) = Returns (DbData row)
     \<and> db_insert_services env (serviceInserts row (selected s)) = Returns (DbData ())
     \<and> \<not> fst (sendQuoteRequestEmail (mail env) (emailData env (form s) (selected s)))
     \<and> \<not> fst (sendClientConfirmationEmail (mail env) (emailData env (form s) (selected s)))
    \<longrightarrow> fst (handleSubmit env s) =
          s\<lparr>selected := [], form := EMPTY_FORM, submitting := False, error := None,
            success := Some ''Request sent successfully. Our team will contact you shortly.''\<rparr>
        \<and> (\<exists>m. last (snd (handleSubmit env s)) = ConsoleWarn ''Email sending failed:'' m))
   \<and> (req_method req = ''POST'' \<and> req_body req = Some data
        \<and> b_contact data = Some c \<and> sc_name c \<noteq> [] \<and> sc_email c \<noteq> []
        \<and> b_services data = Some ss \<and> ss \<noteq> []
        \<and> srv_insert_quote senv (server_quote_insert_of c) = Returns (DbData row')
        \<and> srv_insert_services senv (server_serviceInserts row' ss) = Returns (DbData ())
        \<and> fst (sendEmail (srv_fetch_admin senv) (server_admin_mail senv data row')) \<noteq> Returns ()
        \<and> fst (sendEmail (srv_fetch_client senv) (server_client_mail senv data c row')) \<noteq> Returns ()
      \<longrightarrow> fst (handler senv req) =
            \<lparr>res_status = 200,
             res_json = SuccessJson (row_request_number row') ''Quote request submitted successfully'',
             res_cors = True\<rparr>
          \<and> (\<exists>m. last (snd (handler senv req)) = SConsoleError ''Email sending error:'' m))"
proof (intro conjI impI)
  assume a: "f_name (form s) \<noteq> [] \<and> f_email (form s) \<noteq> [] \<and> selected s \<noteq> []
     \<and> db_insert_quote env (quote_insert_of env (form s)) = Returns (DbData row)
     \<and> db_insert_services env (serviceInserts row (selected s)) = Returns (DbData ())
     \<and> \<not> fst (sendQuoteRequestEmail (mail env) (emailData env (form s) (selected s)))
     \<and> \<not> fst (sendClientConfirmationEmail (mail env) (emailData env (form s) (selected s)))"
  then have st: "submit_try env (form s) (selected s) =
      (Returns (), InsertQuoteRequest (quote_insert_of env (form s))
        # InsertQuoteServices (serviceInserts row (selected s))
        # snd (notify_step env (form s) (selected s)))"
    by (simp add: submit_try_def services_step_def split_def Let_def notify_step_returns)
  from a show "fst (handleSubmit env s) =
          s\<lparr>selected := [], form := EMPTY_FORM, submitting := False, error := None,
            success := Some ''Request sent successfully. Our team will contact you shortly.''\<rparr>"
    by (simp add: handleSubmit_def required_missing_def st)
  from a have f: "\<not> er_success (fst (sendQuoteRequestEmails (mail env) (emailData env (form s) (selected s))))"
    by (simp add: emails_success_iff)
  from a show "\<exists>m. last (snd (handleSubmit env s)) = ConsoleWarn ''Email sending failed:'' m"
    using notify_step_warns [OF f] notify_step_nonempty_on_failure [OF f]
    by (simp add: handleSubmit_def required_missing_def st)
next
  assume b: "req_method req = ''POST'' \<and> req_body req = Some data
        \<and> b_contact data = Some c \<and> sc_name c \<noteq> [] \<and> sc_email c \<noteq> []
        \<and> b_services data = Some ss \<and> ss \<noteq> []
        \<and> srv_insert_quote senv (server_quote_insert_of c) = Returns (DbData row')
        \<and> srv_insert_services senv (server_serviceInserts row' ss) = Returns (DbData ())
        \<and> fst (sendEmail (srv_fetch_admin senv) (server_admin_mail senv data row')) \<noteq> Returns ()
        \<and> fst (sendEmail (srv_fetch_client senv) (server_client_mail senv data c row')) \<noteq> Returns ()"
  then show "fst (handler senv req) =
            \<lparr>res_status = 200,
             res_json = SuccessJson (row_request_number row') ''Quote request submitted successfully'',
             res_cors = True\<rparr>"
    by (simp add: handler_def server_required_missing_def server_after_insert_def json_response_def)
  from b obtain t evs where
    "sendEmail (srv_fetch_admin senv) (server_admin_mail senv data row') = (Throws t, evs)"
    by (cases "sendEmail (srv_fetch_admin senv) (server_admin_mail senv data row')";
        cases "fst (sendEmail (srv_fetch_admin senv) (server_admin_mail senv data row'))") auto
  then have "\<exists>m. last (server_send_emails senv data c row') = SConsoleError ''Email sending error:'' m"
    and "server_send_emails senv data c row' \<noteq> []"
    by (simp_all add: server_send_emails_def)
  with b show "\<exists>m. last (snd (handler senv req)) = SConsoleError ''Email sending error:'' m"
    by (simp add: handler_def server_required_missing_def server_after_insert_def json_response_def)
qed

theorem C3_email_failure_still_success_witness:
  "fst (handleSubmit
       (sample_env (Returns (DbData sample_row)) (Returns (DbData ())) (sample_mail http_down http_down))
       (sample_state (sample_form ''Jane Doe'' ''jane@x.com'') [''market-research'', ''website'']))
     = \<lparr>expandedCategory = None, selected = [], form = EMPTY_FORM, submitting = False,
        success = Some ''Request sent successfully. Our team will contact you shortly.'',
        error = None\<rparr>
   \<and> fst (handler (sample_server_env (Returns (DbData sample_row)) (Returns (DbData ())) http_down http_down)
        (sample_request ''Jane Doe'' ''jane@x.com'' [seo_service]))
     = \<lparr>res_status = 200,
        res_json = SuccessJson ''QR2023110001'' ''Quote request submitted successfully'',
        res_cors = True\<rparr>"
proof -
  let ?s = "sample_state (sample_form ''Jane Doe'' ''jane@x.com'') [''market-research'', ''website'']"
  let ?env = "sample_env (Returns (DbData sample_row)) (Returns (DbData ())) (sample_mail http_down http_down)"
  let ?req = "sample_request ''Jane Doe'' ''jane@x.com'' [seo_service]"
  let ?senv = "sample_server_env (Returns (DbData sample_row)) (Returns (DbData ())) http_down http_down"
  have a: "\<not> fst (sendQuoteRequestEmail (mail ?env) (emailData ?env (form ?s) (selected ?s)))"
    by (simp add: sendQuoteRequestEmail_def sample_env_def sample_mail_def post_result_def
        http_down_def response_ok_def split_def)
  have b: "\<not> fst (sendClientConfirmationEmail (mail ?env) (emailData ?env (form ?s) (selected ?s)))"
    by (simp add: sendClientConfirmationEmail_def sample_env_def sample_mail_def post_result_def
        http_down_def response_ok_def split_def)
  have c: "fst (sendEmail (srv_fetch_admin ?senv)
             (server_admin_mail ?senv (the (req_body ?req)) sample_row)) \<noteq> Returns ()"
    by (simp add: sendEmail_def sample_server_env_def http_down_def response_ok_def)
  have d: "fst (sendEmail (srv_fetch_client ?senv)
             (server_client_mail ?senv (the (req_body ?req))
                (the (b_contact (the (req_body ?req)))) sample_row)) \<noteq> Returns ()"
    by (simp add: sendEmail_def sample_server_env_def http_down_def response_ok_def)
  show ?thesis
    using a b c d
      C3_email_failure_still_success
        [of ?s ?env sample_row ?req "the (req_body ?req)" "the (b_contact (the (req_body ?req)))"
            "[seo_service]" ?senv sample_row]
    by (simp add: sample_state_def sample_form_def sample_request_def sample_env_def
        sample_server_env_def sample_row_def)
qed

text \<open>
  C4. In a submission with non-empty name, e-mail and selection whose two inserts both
  succeed, exactly one request-row insert is issued and it carries the status
  \<^verbatim>\<open>pending\<close>; exactly one service-rows insert is issued, holding one row per
  selected id in order, each linked to the stored request; the row for an id carried by
  a catalogue service is named by that service's title, the row for an id in no
  catalogue service is named by the id itself. For the single selected id \<^verbatim>\<open>seo\<close> the
  name is \<^verbatim>\<open>SEO & Listing Optimization\<close>.
\<close>

theorem C4_rows_persisted:
  assumes "f_name (form s) \<noteq> []" and "f_email (form s) \<noteq> []" and "selected s \<noteq> []"
    and "db_insert_quote env (quote_insert_of env (form s)) = Returns (DbData row)"
    and "db_insert_services env (serviceInserts row (selected s)) = Returns (DbData ())"
  shows "filter is_quote_insert (snd (handleSubmit env s))
           = [InsertQuoteRequest (quote_insert_of env (form s))]
       \<and> qi_status (quote_insert_of env (form s)) = ''pending''
       \<and> filter is_services_insert (snd (handleSubmit env s))
           = [InsertQuoteServices (serviceInserts row (selected s))]
       \<and> length (serviceInserts row (selected s)) = length (selected s)
       \<and> (\<forall>k < length (selected s).
            si_quote_request_id (serviceInserts row (selected s) ! k) = row_id row
          \<and> (\<forall>svc \<in> set (all_services SERVICE_CATEGORIES).
                s_id svc = selected s ! k
                \<longrightarrow> si_service_name (serviceInserts row (selected s) ! k) = s_title svc)
          \<and> (selected s ! k \<notin> s_id ` set (all_services SERVICE_CATEGORIES)
                \<longrightarrow> si_service_name (serviceInserts row (selected s) ! k) = selected s ! k))
       \<and> (selected s = [''seo'']
            \<longrightarrow> map si_service_name (serviceInserts row (selected s)) = [''SEO & Listing Optimization''])"
proof -
  have tr: "snd (handleSubmit env s) =
      InsertQuoteRequest (quote_insert_of env (form s))
        # InsertQuoteServices (serviceInserts row (selected s))
        # snd (notify_step env (form s) (selected s))"
    using assms by (simp add: handleSubmit_def required_missing_def submit_try_persisted)
  have names: "si_service_name (serviceInserts row (selected s) ! k) = serviceTitleById (selected s ! k)"
    if "k < length (selected s)" for k
    using that by (simp add: serviceInserts_def service_name_of_eq)
  have seo: "serviceTitleById ''seo'' = ''SEO & Listing Optimization''"
    by (simp add: serviceTitleById_def SERVICE_CATEGORIES_def)
  show ?thesis
  proof (intro conjI allI impI ballI)
    show "filter is_quote_insert (snd (handleSubmit env s))
           = [InsertQuoteRequest (quote_insert_of env (form s))]"
      by (simp add: tr notify_step_no_inserts)
    show "qi_status (quote_insert_of env (form s)) = ''pending''"
      by (simp add: quote_insert_of_def)
    show "filter is_services_insert (snd (handleSubmit env s))
           = [InsertQuoteServices (serviceInserts row (selected s))]"
      by (simp add: tr notify_step_no_inserts)
    show "length (serviceInserts row (selected s)) = length (selected s)"
      by (simp add: serviceInserts_def)
  next
    fix k assume "k < length (selected s)"
    then show "si_quote_request_id (serviceInserts row (selected s) ! k) = row_id row"
      by (simp add: serviceInserts_def)
  next
    fix k svc
    assume "k < length (selected s)" and "svc \<in> set (all_services SERVICE_CATEGORIES)"
      and "s_id svc = selected s ! k"
    then show "si_service_name (serviceInserts row (selected s) ! k) = s_title svc"
      using serviceTitleById_present [of svc] by (simp add: names)
  next
    fix k
    assume "k < length (selected s)"
      and "selected s ! k \<notin> s_id ` set (all_services SERVICE_CATEGORIES)"
    then show "si_service_name (serviceInserts row (selected s) ! k) = selected s ! k"
      by (simp add: names serviceTitleById_absent)
  next
    assume "selected s = [''seo'']"
    then show "map si_service_name (serviceInserts row (selected s)) = [''SEO & Listing Optimization'']"
      by (simp add: serviceInserts_def service_name_of_eq seo)
  qed
qed

theorem C4_rows_persisted_witness:
  "filter is_quote_insert (snd (handleSubmit (sample_env (Returns (DbData sample_row)) (Returns (DbData ())) (sample_mail http_ok http_ok))
       (sample_state (sample_form ''Jane Doe'' ''jane@x.com'') [''seo''])))
     = [InsertQuoteRequest (quote_insert_of (sample_env (Returns (DbData sample_row)) (Returns (DbData ())) (sample_mail http_ok http_ok)) (sample_form ''Jane Doe'' ''jane@x.com''))]
   \<and> filter is_services_insert (snd (handleSubmit (sample_env (Returns (DbData sample_row)) (Returns (DbData ())) (sample_mail http_ok http_ok))
       (sample_state (sample_form ''Jane Doe'' ''jane@x.com'') [''seo''])))
     = [InsertQuoteServices (serviceInserts sample_row [''seo''])]
   \<and> map si_service_name (serviceInserts sample_row [''seo'']) = [''SEO & Listing Optimization'']"
  using C4_rows_persisted
    [of "sample_state (sample_form ''Jane Doe'' ''jane@x.com'') [''seo'']"
        "sample_env (Returns (DbData sample_row)) (Returns (DbData ())) (sample_mail http_ok http_ok)" sample_row]
  by (simp add: sample_state_def sample_form_def sample_env_def)

text \<open>
  C5. For a payload that passes validation (only then are the two sends made):
  when the admin send and the client send both succeed the combined result has
  \<^verbatim>\<open>success = true\<close>; when only the admin send succeeds it still has
  \<^verbatim>\<open>success = true\<close>, with the message that the client confirmation failed; when the
  admin send fails it has \<^verbatim>\<open>success = false\<close>.
\<close>

theorem C5_combined_email_result:
  assumes "isValid d"
  shows "(fst (sendQuoteRequestEmail m d) \<and> fst (sendClientConfirmationEmail m d)
            \<longrightarrow> fst (sendQuoteRequestEmails m d) =
                  \<lparr>er_success = True, er_message = ''Quote request emails sent successfully''\<rparr>)
       \<and> (fst (sendQuoteRequestEmail m d) \<and> \<not> fst (sendClientConfirmationEmail m d)
            \<longrightarrow> fst (sendQuoteRequestEmails m d) =
                  \<lparr>er_success = True,
                   er_message = ''Admin notification sent, but client confirmation failed''\<rparr>)
       \<and> (\<not> fst (sendQuoteRequestEmail m d)
            \<longrightarrow> er_success (fst (sendQuoteRequestEmails m d)) = False)"
  using assms by (simp add: sendQuoteRequestEmails_def split_def Let_def)

theorem C5_combined_email_result_witness:
  "fst (sendQuoteRequestEmails (sample_mail http_ok http_ok) (sample_data ''jane@x.com''))
     = \<lparr>er_success = True, er_message = ''Quote request emails sent successfully''\<rparr>
   \<and> fst (sendQuoteRequestEmails (sample_mail http_ok http_down) (sample_data ''jane@x.com''))
     = \<lparr>er_success = True,
        er_message = ''Admin notification sent, but client confirmation failed''\<rparr>
   \<and> er_success (fst (sendQuoteRequestEmails (sample_mail http_down http_ok)
        (sample_data ''jane@x.com''))) = False"
proof -
  have v: "isValid (sample_data ''jane@x.com'')"
    by (simp add: isValid_def validation_errors_def sample_data_def trim_def is_ws_def
        EMAIL_RX_def one_or_more_def not_ws_or_at_def)
  have a: "fst (sendQuoteRequestEmail (sample_mail http_ok c) d)"
    "\<not> fst (sendQuoteRequestEmail (sample_mail http_down c) d)"
    "fst (sendClientConfirmationEmail (sample_mail a http_ok) d)"
    "\<not> fst (sendClientConfirmationEmail (sample_mail a http_down) d)" for a c d
    by (simp_all add: sendQuoteRequestEmail_def sendClientConfirmationEmail_def sample_mail_def
        post_result_def http_ok_def http_down_def response_ok_def split_def)
  show ?thesis
    using C5_combined_email_result [OF v, of "sample_mail http_ok http_ok"]
      C5_combined_email_result [OF v, of "sample_mail http_ok http_down"]
      C5_combined_email_result [OF v, of "sample_mail http_down http_ok"]
    by (simp add: a)
qed

text \<open>
  C6. For every sequence of toggle calls starting from the empty selection, an id is
  selected exactly when it has been toggled an odd number of times so far, and the
  selection never holds an id twice.
\<close>

theorem C6_toggle_parity:
  "isSelected (toggles ts []) i = odd (count_list ts i) \<and> distinct (toggles ts [])"
  by (simp add: isSelected_def toggles_member toggles_distinct)

text \<open>
  C7. For every service of the static catalogue the title lookup returns that
  service's title, and for every id that no catalogue service carries it returns the
  id itself.
\<close>

theorem C7_titleOf:
  "(\<forall>s \<in> set (all_services SERVICE_CATEGORIES). serviceTitleById (s_id s) = s_title s) \<and>
   (\<forall>i. i \<notin> s_id ` set (all_services SERVICE_CATEGORIES) \<longrightarrow> serviceTitleById i = i)"
  by (simp add: serviceTitleById_def scan_categories_present [OF catalogue_ids_distinct]
      scan_categories_absent)


theorem C7_titleOf_witness:
  "serviceTitleById ''seo'' = ''SEO & Listing Optimization''
   \<and> serviceTitleById ''not-in-catalogue'' = ''not-in-catalogue''"
proof -
  have m: "\<lparr>s_id = ''seo'', s_title = ''SEO & Listing Optimization''\<rparr>
             \<in> set (all_services SERVICE_CATEGORIES)"
    by (simp add: all_services_def SERVICE_CATEGORIES_def)
  have n: "''not-in-catalogue'' \<notin> s_id ` set (all_services SERVICE_CATEGORIES)"
    by (simp add: all_services_def SERVICE_CATEGORIES_def)
  from C7_titleOf m n show ?thesis by force
qed

text \<open>
  C8. When the insert of the service rows comes back with an error, the submission is
  meant to abort with the message \<^verbatim>\<open>Failed to save selected services\<close> on both
  paths. The browser does so (\<open>handleSubmit_services_insert_failure\<close> above). The
  server handler does not: on the run below, where the service-rows insert fails, it
  logs the error, goes on to send both e-mails and answers 200 with the success body.
\<close>

theorem C8_server_ignores_services_insert_failure:
  "handler (sample_server_env (Returns (DbData sample_row)) (Returns (DbError ''insert failed''))
              http_ok http_ok)
     (sample_request ''Jane Doe'' ''jane@x.com'' [seo_service])
   = (\<lparr>res_status = 200,
       res_json = SuccessJson ''QR2023110001'' ''Quote request submitted successfully'',
       res_cors = True\<rparr>,
      [SInsertQuoteRequest
         \<lparr>sq_name = ''Jane Doe'', sq_company = None, sq_email = ''jane@x.com'', sq_phone = None,
          sq_budget_range = ''5k-20k'', sq_timeline = ''1-3'', sq_message = None,
          sq_status = ''pending''\<rparr>,
       SInsertQuoteServices
         [\<lparr>ssi_quote_request_id = ''7f1c'', ssi_service_name = ''SEO & Listing Optimization'',
           ssi_custom_description = None\<rparr>],
       SConsoleError ''Services insert error:'' ''insert failed'',
       SPostEmail
         \<lparr>sm_to = ''admin@example.com'', sm_subject = ''New Quote Request - QR2023110001'',
          sm_html = ''<h2>New Quote Request - QR2023110001</h2>''\<rparr>,
       SPostEmail
         \<lparr>sm_to = ''jane@x.com'', sm_subject = ''Quote Request Received - QR2023110001'',
          sm_html = ''<p>Reference: QR2023110001</p>''\<rparr>])"
  by (simp add: handler_def sample_request_def sample_server_env_def server_required_missing_def
      server_quote_insert_of_def server_after_insert_def server_serviceInserts_def
      server_send_emails_def sendEmail_def server_admin_mail_def server_client_mail_def
      json_response_def sample_row_def seo_service_def http_ok_def response_ok_def)

text \<open>
  C9. When a submission aborts (the request insert or the service-rows insert comes
  back with an error, or either insert's promise rejects) the selection and the form
  are as they were before; the state differs from the one before only in the error
  message, the in-flight flag being back at \<^verbatim>\<open>false\<close>.
\<close>

theorem C9_abort_keeps_selection_and_form:
  assumes "f_name (form s) \<noteq> []" and "f_email (form s) \<noteq> []" and "selected s \<noteq> []"
    and "db_insert_quote env (quote_insert_of env (form s)) = Returns (DbError e)
       \<or> (\<exists>row. db_insert_quote env (quote_insert_of env (form s)) = Returns (DbData row)
               \<and> db_insert_services env (serviceInserts row (selected s)) = Returns (DbError e))
       \<or> db_insert_quote env (quote_insert_of env (form s)) = Throws t
       \<or> (\<exists>row. db_insert_quote env (quote_insert_of env (form s)) = Returns (DbData row)
               \<and> db_insert_services env (serviceInserts row (selected s)) = Throws t)"
  shows "selected (fst (handleSubmit env s)) = selected s
       \<and> form (fst (handleSubmit env s)) = form s
       \<and> (\<exists>m. fst (handleSubmit env s) = s\<lparr>error := Some m, submitting := False\<rparr>)
       \<and> (\<not> submitting s \<longrightarrow> (\<exists>m. fst (handleSubmit env s) = s\<lparr>error := Some m\<rparr>))"
proof -
  from assms have "\<exists>m. fst (handleSubmit env s) = s\<lparr>error := Some m, submitting := False\<rparr>"
    by (auto simp: handleSubmit_def required_missing_def submit_try_def services_step_def Let_def)
  then obtain m where m: "fst (handleSubmit env s) = s\<lparr>error := Some m, submitting := False\<rparr>" ..
  show ?thesis
  proof (intro conjI impI)
    show "selected (fst (handleSubmit env s)) = selected s"
      and "form (fst (handleSubmit env s)) = form s"
      by (simp_all add: m)
    show "\<exists>m. fst (handleSubmit env s) = s\<lparr>error := Some m, submitting := False\<rparr>"
      using m by (rule exI)
    assume "\<not> submitting s"
    then have "s\<lparr>error := Some m, submitting := False\<rparr> = s\<lparr>error := Some m\<rparr>"
      by simp
    with m have "fst (handleSubmit env s) = s\<lparr>error := Some m\<rparr>" by simp
    then show "\<exists>m. fst (handleSubmit env s) = s\<lparr>error := Some m\<rparr>" by (rule exI)
  qed
qed

theorem C9_abort_keeps_selection_and_form_witness:
  "selected (fst (handleSubmit
       (sample_env (Returns (DbData sample_row)) (Returns (DbError ''insert failed'')) (sample_mail http_ok http_ok))
       (sample_state (sample_form ''Jane Doe'' ''jane@x.com'') [''seo''])))
     = [''seo'']
   \<and> form (fst (handleSubmit
       (sample_env (Returns (DbData sample_row)) (Returns (DbError ''insert failed'')) (sample_mail http_ok http_ok))
       (sample_state (sample_form ''Jane Doe'' ''jane@x.com'') [''seo''])))
     = sample_form ''Jane Doe'' ''jane@x.com''
   \<and> (\<exists>m. fst (handleSubmit
       (sample_env (Returns (DbData sample_row)) (Returns (DbError ''insert failed'')) (sample_mail http_ok http_ok))
       (sample_state (sample_form ''Jane Doe'' ''jane@x.com'') [''seo'']))
     = (sample_state (sample_form ''Jane Doe'' ''jane@x.com'') [''seo''])\<lparr>error := Some m\<rparr>)"
  using C9_abort_keeps_selection_and_form
    [of "sample_state (sample_form ''Jane Doe'' ''jane@x.com'') [''seo'']"
        "sample_env (Returns (DbData sample_row)) (Returns (DbError ''insert failed'')) (sample_mail http_ok http_ok)"
        "''insert failed''" "JsOther []"]
  by (simp add: sample_state_def sample_form_def sample_env_def)

text \<open>
  C10. The mail module validates its payload again before sending: a payload whose
  name is empty, whose list of selected services is empty or whose e-mail does not
  match \<^verbatim>\<open>/^[^\s@]+@[^\s@]+\.[^\s@]+$/\<close> gets \<^verbatim>\<open>success = false\<close> with a
  \<^verbatim>\<open>Validation failed: ...\<close> message and no send is attempted. Hence a submission
  whose e-mail is non-empty but does not match, and whose inserts succeed, is stored in
  the database (both inserts are issued and answered), no e-mail POST is made, and the
  user still sees the success message.
\<close>

theorem C10_payload_revalidated:
  "(q_name d = [] \<or> q_selectedServices d = [] \<or> \<not> rx_test EMAIL_RX (q_email d)
      \<longrightarrow> sendQuoteRequestEmails m d =
            (\<lparr>er_success = False,
              er_message = ''Validation failed: '' @ join '', '' (validation_errors d)\<rparr>, [])
          \<and> validation_errors d \<noteq> [])
   \<and> (f_name (form s) \<noteq> [] \<and> f_email (form s) \<noteq> [] \<and> selected s \<noteq> []
        \<and> \<not> rx_test EMAIL_RX (f_email (form s))
        \<and> db_insert_quote env (quote_insert_of env (form s)) = Returns (DbData row)
        \<and> db_insert_services env (serviceInserts row (selected s)) = Returns (DbData ())
      \<longrightarrow> filter is_network_call (snd (handleSubmit env s)) =
            [InsertQuoteRequest (quote_insert_of env (form s)),
             InsertQuoteServices (serviceInserts row (selected s))]
          \<and> success (fst (handleSubmit env s)) =
              Some ''Request sent successfully. Our team will contact you shortly.'')"
proof (intro conjI impI)
  assume a: "q_name d = [] \<or> q_selectedServices d = [] \<or> \<not> rx_test EMAIL_RX (q_email d)"
  from invalid_payload [OF a]
  show "sendQuoteRequestEmails m d =
            (\<lparr>er_success = False,
              er_message = ''Validation failed: '' @ join '', '' (validation_errors d)\<rparr>, [])"
    by (simp add: sendQuoteRequestEmails_def)
  from invalid_payload [OF a] show "validation_errors d \<noteq> []"
    by (simp add: isValid_def)
next
  assume b: "f_name (form s) \<noteq> [] \<and> f_email (form s) \<noteq> [] \<and> selected s \<noteq> []
        \<and> \<not> rx_test EMAIL_RX (f_email (form s))
        \<and> db_insert_quote env (quote_insert_of env (form s)) = Returns (DbData row)
        \<and> db_insert_services env (serviceInserts row (selected s)) = Returns (DbData ())"
  then have "\<not> isValid (emailData env (form s) (selected s))"
    by (intro invalid_payload) (simp add: emailData_def)
  then have n: "filter is_network_call (snd (notify_step env (form s) (selected s))) = []"
    by (simp add: notify_step_def sendQuoteRequestEmails_def)
  from b show "filter is_network_call (snd (handleSubmit env s)) =
            [InsertQuoteRequest (quote_insert_of env (form s)),
             InsertQuoteServices (serviceInserts row (selected s))]"
    by (simp add: handleSubmit_def required_missing_def submit_try_persisted n)
  from b show "success (fst (handleSubmit env s)) =
              Some ''Request sent successfully. Our team will contact you shortly.''"
    by (simp add: handleSubmit_def required_missing_def submit_try_persisted)
qed

theorem C10_payload_revalidated_witness:
  "sendQuoteRequestEmails (sample_mail http_ok http_ok) (sample_data ''jane'')
     = (\<lparr>er_success = False,
         er_message = ''Validation failed: Valid email address is required''\<rparr>, [])
   \<and> filter is_network_call (snd (handleSubmit (sample_env (Returns (DbData sample_row)) (Returns (DbData ())) (sample_mail http_ok http_ok))
        (sample_state (sample_form ''Jane Doe'' ''jane'') [''seo''])))
     = [InsertQuoteRequest (quote_insert_of (sample_env (Returns (DbData sample_row)) (Returns (DbData ())) (sample_mail http_ok http_ok)) (sample_form ''Jane Doe'' ''jane'')),
        InsertQuoteServices (serviceInserts sample_row [''seo''])]"
proof -
  let ?d = "sample_data ''jane''"
  let ?s = "sample_state (sample_form ''Jane Doe'' ''jane'') [''seo'']"
  let ?env = "sample_env (Returns (DbData sample_row)) (Returns (DbData ())) (sample_mail http_ok http_ok)"
  have r: "\<not> rx_test EMAIL_RX ''jane''"
    by (simp add: EMAIL_RX_def one_or_more_def not_ws_or_at_def is_ws_def)
  have e: "validation_errors ?d = [''Valid email address is required'']"
    by (simp add: validation_errors_def sample_data_def trim_def is_ws_def
        EMAIL_RX_def one_or_more_def not_ws_or_at_def)
  have sel: "selected ?s = [''seo'']" and frm: "form ?s = sample_form ''Jane Doe'' ''jane''"
    by (simp_all add: sample_state_def)
  have h1: "q_name ?d = [] \<or> q_selectedServices ?d = [] \<or> \<not> rx_test EMAIL_RX (q_email ?d)"
    using r by (simp add: sample_data_def)
  have h2: "f_name (form ?s) \<noteq> [] \<and> f_email (form ?s) \<noteq> [] \<and> selected ?s \<noteq> []
        \<and> \<not> rx_test EMAIL_RX (f_email (form ?s))
        \<and> db_insert_quote ?env (quote_insert_of ?env (form ?s)) = Returns (DbData sample_row)
        \<and> db_insert_services ?env (serviceInserts sample_row (selected ?s)) = Returns (DbData ())"
    using r by (simp add: sample_state_def sample_form_def sample_env_def)
  note T = C10_payload_revalidated [of ?d "sample_mail http_ok http_ok" ?s ?env sample_row]
  from T h1 have c1: "sendQuoteRequestEmails (sample_mail http_ok http_ok) ?d =
      (\<lparr>er_success = False,
        er_message = ''Validation failed: '' @ join '', '' (validation_errors ?d)\<rparr>, [])"
    by blast
  from T h2 have c2: "filter is_network_call (snd (handleSubmit ?env ?s)) =
      [InsertQuoteRequest (quote_insert_of ?env (form ?s)),
       InsertQuoteServices (serviceInserts sample_row (selected ?s))]"
    by blast
  show ?thesis
    using c1 c2 unfolding e sel frm by simp
qed

end
